theory Spec2Isabelle
  imports Complex_Main
begin

section \<open>Message model (types.ts)\<close>

datatype MessageRole = User | Assistant

record ImagePayload =
  data :: string
  mimeType :: string

text \<open>
  A part has an optional text and an optional image. The fields are called \<open>text\<close> and
  \<open>image\<close> in the source; they carry a prefix here because both names are taken.
\<close>

record MessagePart =
  p_text :: "string option"
  p_image :: "ImagePayload option"

record ChatMessage =
  id :: string
  role :: MessageRole
  parts :: "MessagePart list"
  timestamp :: int

text \<open>The string a role is on the wire: the TypeScript type is a union of string literals.\<close>

fun role_name :: "MessageRole \<Rightarrow> string" where
  "role_name User = ''user''"
| "role_name Assistant = ''assistant''"

section \<open>JavaScript truthiness of optional strings\<close>

text \<open>
  An environment variable, like an optional text field, is \<open>undefined\<close> or a string.
  JavaScript takes \<open>undefined\<close> and the empty string as false, every other string as true.
\<close>

fun truthy :: "string option \<Rightarrow> bool" where
  "truthy None = False"
| "truthy (Some s) = (s \<noteq> [])"

text \<open>\<open>a || b\<close> on optional strings.\<close>

definition js_or :: "string option \<Rightarrow> string option \<Rightarrow> string option" where
  "js_or a b = (if truthy a then a else b)"

text \<open>\<open>a || d\<close> where \<open>d\<close> is a string literal.\<close>

definition or_default :: "string option \<Rightarrow> string \<Rightarrow> string" where
  "or_default a d = (case a of None \<Rightarrow> d | Some s \<Rightarrow> if s \<noteq> [] then s else d)"

text \<open>\<open>p.text || ""\<close>.\<close>

definition text_or_empty :: "MessagePart \<Rightarrow> string" where
  "text_or_empty p = or_default (p_text p) []"

section \<open>Configuration read from the environment\<close>

record Env =
  HUGGINGFACE_API_KEY :: "string option"
  OLLAMA_API_KEY :: "string option"
  OPENAI_API_KEY :: "string option"
  OLLAMA_BASE_URL :: "string option"
  GEMINI_API_KEY :: "string option"

record OpenAI =
  apiKey :: string
  baseURL :: "string option"

datatype HfInference = HfInference string

definition getOpenAIClient :: "Env \<Rightarrow> OpenAI option" where
  "getOpenAIClient env =
     (let apiKey = js_or (OLLAMA_API_KEY env) (OPENAI_API_KEY env) in
      if \<not> truthy apiKey \<and> \<not> truthy (OLLAMA_BASE_URL env) then None
      else Some \<lparr>apiKey = or_default apiKey ''dummy-key-for-ollama'',
                 baseURL = js_or (OLLAMA_BASE_URL env) None\<rparr>)"

definition getHFClient :: "Env \<Rightarrow> HfInference option" where
  "getHFClient env =
     (case HUGGINGFACE_API_KEY env of
        None \<Rightarrow> None
      | Some hfKey \<Rightarrow> if hfKey = [] then None else Some (HfInference hfKey))"

section \<open>Chat-completion wire format\<close>

text \<open>
  A content entry of a multimodal message: \<open>{type: "image_url", image_url: {url}}\<close> or
  \<open>{type: "text", text}\<close>. The content of a message is a plain string or an array of entries.
\<close>

datatype content_part = ImageUrl string | TextPart string

datatype content = Str string | Parts "content_part list"

record chat_message =
  w_role :: string
  w_content :: content

record chat_request =
  model :: string
  messages :: "chat_message list"
  max_tokens :: nat

text \<open>
  What a provider answers: \<open>response.choices[i].message.content\<close>, the content being a
  string or \<open>null\<close>.
\<close>

record choice_message =
  content :: "string option"

record choice =
  message :: choice_message

record chat_response =
  choices :: "choice list"

text \<open>
  A provider call resolves with a response or rejects with an error, of which the handler
  reads the message only.
\<close>

type_synonym hf_api = "HfInference \<Rightarrow> chat_request \<Rightarrow> string + chat_response"
type_synonym openai_api = "OpenAI \<Rightarrow> chat_request \<Rightarrow> string + chat_response"

datatype outbound = HFCall HfInference chat_request | OpenAICall OpenAI chat_request

fun is_HFCall :: "outbound \<Rightarrow> bool" where
  "is_HFCall (HFCall _ _) = True"
| "is_HFCall (OpenAICall _ _) = False"

fun is_OpenAICall :: "outbound \<Rightarrow> bool" where
  "is_OpenAICall (OpenAICall _ _) = True"
| "is_OpenAICall (HFCall _ _) = False"

section \<open>HTTP response of the endpoint\<close>

datatype json_body = TextBody "string option" | ErrorBody string

record http_response =
  status :: nat
  body :: json_body

record outcome =
  response :: http_response
  calls :: "outbound list"

section \<open>The handler of POST /api/analyze\<close>

definition langInstruction :: "string \<Rightarrow> string" where
  "langInstruction language =
     [CHR 10, CHR 10] @ ''IMPORTANT: You MUST provide your response in '' @ language @ ''.''"

definition fullSystemInstruction :: "string \<Rightarrow> string \<Rightarrow> string" where
  "fullSystemInstruction systemInstruction language = systemInstruction @ langInstruction language"

text \<open>
  \<open>response.choices[0].message.content\<close>: reading \<open>message\<close> of \<open>undefined\<close> throws a
  TypeError when there is no first choice. The message is the one of Node's engine.
\<close>

definition undefined_message_error :: string where
  "undefined_message_error =
     ''Cannot read properties of undefined (reading '' @ [CHR 39] @ ''message'' @ [CHR 39] @ '')''"

definition first_choice_content :: "chat_response \<Rightarrow> string + string option" where
  "first_choice_content r =
     (case choices r of [] \<Rightarrow> Inl undefined_message_error | c # _ \<Rightarrow> Inr (content (message c)))"

text \<open>\<open>xs.join(" ")\<close>.\<close>

fun join_space :: "string list \<Rightarrow> string" where
  "join_space [] = []"
| "join_space [x] = x"
| "join_space (x # y # ys) = x @ '' '' @ join_space (y # ys)"

text \<open>
  The scan of the most recent user message: \<open>lastImage\<close> and \<open>lastText\<close>, each overwritten
  by every part that has a truthy image or text.
\<close>

definition scan_part :: "ImagePayload option \<times> string \<Rightarrow> MessagePart \<Rightarrow> ImagePayload option \<times> string" where
  "scan_part acc p =
     (let lastImage = (case p_image p of Some i \<Rightarrow> Some i | None \<Rightarrow> fst acc);
          lastText = or_default (p_text p) (snd acc)
      in (lastImage, lastText))"

definition lastUserMsg :: "ChatMessage list \<Rightarrow> ChatMessage option" where
  "lastUserMsg msgs = List.find (\<lambda>m. role m = User) (rev msgs)"

definition last_scan :: "ChatMessage list \<Rightarrow> ImagePayload option \<times> string" where
  "last_scan msgs =
     (case lastUserMsg msgs of
        None \<Rightarrow> (None, [])
      | Some m \<Rightarrow> foldl scan_part (None, []) (parts m))"

definition lastImage :: "ChatMessage list \<Rightarrow> ImagePayload option" where
  "lastImage msgs = fst (last_scan msgs)"

text \<open>The two serialisations of a message: text only, and multimodal.\<close>

definition text_message :: "ChatMessage \<Rightarrow> chat_message" where
  "text_message m =
     \<lparr>w_role = role_name (role m), w_content = Str (join_space (map text_or_empty (parts m)))\<rparr>"

definition data_uri :: "ImagePayload \<Rightarrow> string" where
  "data_uri i = ''data:'' @ mimeType i @ '';base64,'' @ data i"

definition part_content :: "MessagePart \<Rightarrow> content_part" where
  "part_content part =
     (case p_image part of
        Some i \<Rightarrow> ImageUrl (data_uri i)
      | None \<Rightarrow> TextPart (text_or_empty part))"

definition multimodal_message :: "ChatMessage \<Rightarrow> chat_message" where
  "multimodal_message msg =
     \<lparr>w_role = role_name (role msg), w_content = Parts (map part_content (parts msg))\<rparr>"

definition system_message :: "string \<Rightarrow> chat_message" where
  "system_message s = \<lparr>w_role = ''system'', w_content = Str s\<rparr>"

definition HF_MODEL :: string where
  "HF_MODEL = ''meta-llama/Llama-3.2-11B-Vision-Instruct''"

definition hf_request :: "string \<Rightarrow> ChatMessage list \<Rightarrow> chat_request" where
  "hf_request fullSys msgs =
     (if lastImage msgs = None then
        \<lparr>model = HF_MODEL, messages = system_message fullSys # map text_message msgs,
         max_tokens = 500\<rparr>
      else
        \<lparr>model = HF_MODEL, messages = system_message fullSys # map multimodal_message msgs,
         max_tokens = 1000\<rparr>)"

text \<open>
  The Hugging Face path. Whatever is thrown inside it, by the provider call or by reading
  the response, is caught there and answered with status 500.
\<close>

definition hf_path :: "HfInference \<Rightarrow> hf_api \<Rightarrow> string \<Rightarrow> ChatMessage list \<Rightarrow> outcome" where
  "hf_path hf api fullSys msgs =
     (let req = hf_request fullSys msgs;
          thrown = (\<lambda>msg. \<lparr>status = 500, body = ErrorBody (''Hugging Face Error: '' @ msg)\<rparr>)
      in \<lparr>response =
            (case api hf req of
               Inl msg \<Rightarrow> thrown msg
             | Inr r \<Rightarrow>
                 (case first_choice_content r of
                    Inl msg \<Rightarrow> thrown msg
                  | Inr c \<Rightarrow> \<lparr>status = 200, body = TextBody c\<rparr>)),
          calls = [HFCall hf req]\<rparr>)"

definition openai_request :: "Env \<Rightarrow> string \<Rightarrow> ChatMessage list \<Rightarrow> chat_request" where
  "openai_request env fullSys msgs =
     (let isOllama = truthy (OLLAMA_BASE_URL env);
          formattedMessages = system_message fullSys # map multimodal_message msgs
      in \<lparr>model = (if isOllama then ''llava'' else ''gpt-4o''),
          messages = formattedMessages,
          max_tokens = 1000\<rparr>)"

text \<open>
  The OpenAI / Ollama path. What is thrown here reaches the handler's outer catch, which
  answers \<open>error.message || "An unexpected error occurred."\<close>.
\<close>

definition general_error :: "string \<Rightarrow> http_response" where
  "general_error msg =
     \<lparr>status = 500, body = ErrorBody (if msg \<noteq> [] then msg else ''An unexpected error occurred.'')\<rparr>"

definition openai_path :: "Env \<Rightarrow> OpenAI \<Rightarrow> openai_api \<Rightarrow> string \<Rightarrow> ChatMessage list \<Rightarrow> outcome" where
  "openai_path env openai api fullSys msgs =
     (let req = openai_request env fullSys msgs
      in \<lparr>response =
            (case api openai req of
               Inl msg \<Rightarrow> general_error msg
             | Inr r \<Rightarrow>
                 (case first_choice_content r of
                    Inl msg \<Rightarrow> general_error msg
                  | Inr c \<Rightarrow> \<lparr>status = 200, body = TextBody c\<rparr>)),
          calls = [OpenAICall openai req]\<rparr>)"

definition NO_KEYS_ERROR :: string where
  "NO_KEYS_ERROR =
     ''No API keys configured. Please set HUGGINGFACE_API_KEY, OPENAI_API_KEY, or OLLAMA_BASE_URL.''"

definition api_analyze ::
  "Env \<Rightarrow> hf_api \<Rightarrow> openai_api \<Rightarrow> ChatMessage list \<Rightarrow> string \<Rightarrow> string \<Rightarrow> outcome" where
  "api_analyze env hfApi openaiApi msgs systemInstruction language =
     (let hf = getHFClient env; openai = getOpenAIClient env in
      if hf = None \<and> openai = None then
        \<lparr>response = \<lparr>status = 500, body = ErrorBody NO_KEYS_ERROR\<rparr>, calls = []\<rparr>
      else
        (let fullSys = fullSystemInstruction systemInstruction language in
         case hf of
           Some h \<Rightarrow> hf_path h hfApi fullSys msgs
         | None \<Rightarrow>
             (case openai of
                Some c \<Rightarrow> openai_path env c openaiApi fullSys msgs
              | None \<Rightarrow>
                  \<lparr>response = \<lparr>status = 500,
                                body = ErrorBody ''No provider available to handle the request.''\<rparr>,
                   calls = []\<rparr>)))"

section \<open>The hosted-generation adapter (analyzeImageAndChat)\<close>

definition GEMINI_MODEL :: string where
  "GEMINI_MODEL = ''gemini-3-flash-preview''"

datatype gemini_part = InlineData string string | TextOnly string

record gemini_content =
  g_role :: string
  g_parts :: "gemini_part list"

record generation_config =
  systemInstruction :: string
  temperature :: real

record generate_params =
  g_model :: string
  contents :: "gemini_content list"
  config :: generation_config

text \<open>
  Of the provider's response the adapter reads the \<open>text\<close> accessor only, which is
  \<open>undefined\<close> or the text of the first candidate.
\<close>

record GenerateContentResponse =
  r_text :: "string option"

type_synonym gemini_api = "string \<Rightarrow> generate_params \<Rightarrow> string + GenerateContentResponse"

text \<open>The one kind of call the adapter makes: \<open>ai.models.generateContent\<close> with the key.\<close>

datatype gemini_call = GenerateContent string generate_params

definition gemini_part_of :: "MessagePart \<Rightarrow> gemini_part" where
  "gemini_part_of part =
     (case p_image part of
        Some i \<Rightarrow> InlineData (data i) (mimeType i)
      | None \<Rightarrow> TextOnly (text_or_empty part))"

definition gemini_content_of :: "ChatMessage \<Rightarrow> gemini_content" where
  "gemini_content_of msg =
     \<lparr>g_role = (if role msg = Assistant then ''model'' else ''user''),
      g_parts = map gemini_part_of (parts msg)\<rparr>"

text \<open>The text returned in place of an empty answer, apostrophes as character 39.\<close>

definition FALLBACK_TEXT :: string where
  "FALLBACK_TEXT =
     ''I'' @ [CHR 39] @ ''m '' @ ''so'' @ ''rry, I couldn'' @ [CHR 39] @ ''t analyze that image.''"

definition gemini_params :: "ChatMessage list \<Rightarrow> string \<Rightarrow> string \<Rightarrow> generate_params" where
  "gemini_params msgs sysInstr language =
     \<lparr>g_model = GEMINI_MODEL,
      contents = map gemini_content_of msgs,
      config = \<lparr>systemInstruction = fullSystemInstruction sysInstr language,
                temperature = 7 / 10\<rparr>\<rparr>"

text \<open>
  The result is the returned text, or the message of the error thrown, with the calls made.
  The language is optional and defaults to English.
\<close>

definition analyzeImageAndChat ::
  "Env \<Rightarrow> gemini_api \<Rightarrow> ChatMessage list \<Rightarrow> string \<Rightarrow> string option
     \<Rightarrow> (string + string) \<times> gemini_call list" where
  "analyzeImageAndChat env api msgs sysInstr language_opt =
     (case GEMINI_API_KEY env of
        None \<Rightarrow> (Inl ''GEMINI_API_KEY is not configured.'', [])
      | Some key \<Rightarrow>
          if key = [] then (Inl ''GEMINI_API_KEY is not configured.'', [])
          else
            (let language = (case language_opt of None \<Rightarrow> ''English'' | Some l \<Rightarrow> l);
                 params = gemini_params msgs sysInstr language
             in ((case api key params of
                    Inl msg \<Rightarrow> Inl msg
                  | Inr r \<Rightarrow> Inr (or_default (r_text r) FALLBACK_TEXT)),
                 [GenerateContent key params])))"

section \<open>Predicates on outbound requests\<close>

fun is_ImageUrl :: "content_part \<Rightarrow> bool" where
  "is_ImageUrl (ImageUrl _) = True"
| "is_ImageUrl (TextPart _) = False"

text \<open>An image payload in a request body: an \<open>image_url\<close> entry in some message.\<close>

definition has_image_payload :: "chat_request \<Rightarrow> bool" where
  "has_image_payload req =
     list_ex (\<lambda>wm. case w_content wm of Str _ \<Rightarrow> False | Parts ps \<Rightarrow> list_ex is_ImageUrl ps)
       (messages req)"

section \<open>Example inputs\<close>

definition env_none :: Env where
  "env_none = \<lparr>HUGGINGFACE_API_KEY = None, OLLAMA_API_KEY = None, OPENAI_API_KEY = None,
                OLLAMA_BASE_URL = None, GEMINI_API_KEY = None\<rparr>"

definition env_hf_only :: Env where
  "env_hf_only = env_none\<lparr>HUGGINGFACE_API_KEY := Some ''hf_key''\<rparr>"

definition env_all :: Env where
  "env_all = \<lparr>HUGGINGFACE_API_KEY = Some ''hf_key'', OLLAMA_API_KEY = None,
               OPENAI_API_KEY = Some ''sk-key'',
               OLLAMA_BASE_URL = Some ''http://localhost:11434/v1'',
               GEMINI_API_KEY = Some ''g_key''\<rparr>"

definition env_ollama :: Env where
  "env_ollama = env_none\<lparr>OLLAMA_BASE_URL := Some ''http://localhost:11434/v1''\<rparr>"

definition env_openai :: Env where
  "env_openai = env_none\<lparr>OPENAI_API_KEY := Some ''sk-key''\<rparr>"

definition env_gemini :: Env where
  "env_gemini = env_none\<lparr>GEMINI_API_KEY := Some ''g_key''\<rparr>"

text \<open>A provider that rejects every call, and one that answers every call with one choice.\<close>

definition rejecting :: "'c \<Rightarrow> chat_request \<Rightarrow> string + chat_response" where
  "rejecting c req = Inl ''503 Service Unavailable''"

definition answering :: "string \<Rightarrow> 'c \<Rightarrow> chat_request \<Rightarrow> string + chat_response" where
  "answering t c req = Inr \<lparr>choices = [\<lparr>message = \<lparr>content = Some t\<rparr>\<rparr>]\<rparr>"

text \<open>A provider that answers every call with an empty list of choices.\<close>

definition no_choices :: "'c \<Rightarrow> chat_request \<Rightarrow> string + chat_response" where
  "no_choices c req = Inr \<lparr>choices = []\<rparr>"

text \<open>A provider whose first choice has the content \<open>null\<close>.\<close>

definition null_content :: "'c \<Rightarrow> chat_request \<Rightarrow> string + chat_response" where
  "null_content c req = Inr \<lparr>choices = [\<lparr>message = \<lparr>content = None\<rparr>\<rparr>]\<rparr>"

definition text_part :: "string \<Rightarrow> MessagePart" where
  "text_part t = \<lparr>p_text = Some t, p_image = None\<rparr>"

definition image_part :: "string \<Rightarrow> string \<Rightarrow> MessagePart" where
  "image_part d mt = \<lparr>p_text = None, p_image = Some \<lparr>data = d, mimeType = mt\<rparr>\<rparr>"

text \<open>The conversation of the spec's scenario: one user turn, an image and a question.\<close>

definition scenario_messages :: "ChatMessage list" where
  "scenario_messages =
     [\<lparr>id = ''1'', role = User,
       parts = [image_part ''AAA'' ''image/png'', text_part ''What is this?''],
       timestamp = 0\<rparr>]"

text \<open>One user turn of two text parts.\<close>

definition two_texts_messages :: "ChatMessage list" where
  "two_texts_messages =
     [\<lparr>id = ''1'', role = User, parts = [text_part ''a'', text_part ''b''], timestamp = 0\<rparr>]"

text \<open>An image in an early turn, an answer, and a second image in the latest turn.\<close>

definition history_messages :: "ChatMessage list" where
  "history_messages =
     [\<lparr>id = ''1'', role = User, parts = [image_part ''AAA'' ''image/png''], timestamp = 0\<rparr>,
      \<lparr>id = ''2'', role = Assistant, parts = [text_part ''A cat.''], timestamp = 1\<rparr>,
      \<lparr>id = ''3'', role = User,
       parts = [image_part ''BBB'' ''image/jpeg'', text_part ''And this?''], timestamp = 2\<rparr>]"

text \<open>A conversation without a user turn.\<close>

definition assistant_only_messages :: "ChatMessage list" where
  "assistant_only_messages =
     [\<lparr>id = ''1'', role = Assistant, parts = [text_part ''Hello.''], timestamp = 0\<rparr>]"

text \<open>Answers of the hosted-generation provider: a text, and a response without text.\<close>

definition gemini_answering ::
  "string \<Rightarrow> string \<Rightarrow> generate_params \<Rightarrow> string + GenerateContentResponse" where
  "gemini_answering t key params = Inr \<lparr>r_text = Some t\<rparr>"

definition gemini_empty :: "string \<Rightarrow> generate_params \<Rightarrow> string + GenerateContentResponse" where
  "gemini_empty key params = Inr \<lparr>r_text = None\<rparr>"

section \<open>Client construction and provider selection\<close>

lemma getHFClient_Some:
  "HUGGINGFACE_API_KEY env = Some key \<Longrightarrow> key \<noteq> [] \<Longrightarrow> getHFClient env = Some (HfInference key)"
  by (simp add: getHFClient_def)

lemma getHFClient_None_iff: "getHFClient env = None \<longleftrightarrow> \<not> truthy (HUGGINGFACE_API_KEY env)"
  by (cases "HUGGINGFACE_API_KEY env") (auto simp: getHFClient_def)

lemma getOpenAIClient_None_iff:
  "getOpenAIClient env = None \<longleftrightarrow>
     \<not> truthy (OLLAMA_API_KEY env) \<and> \<not> truthy (OPENAI_API_KEY env) \<and> \<not> truthy (OLLAMA_BASE_URL env)"
  by (auto simp: getOpenAIClient_def js_or_def Let_def)

lemma analyze_hf:
  assumes "HUGGINGFACE_API_KEY env = Some key" and "key \<noteq> []"
  shows "api_analyze env hfApi openaiApi msgs sys lang =
           hf_path (HfInference key) hfApi (fullSystemInstruction sys lang) msgs"
  using assms by (simp add: api_analyze_def getHFClient_Some Let_def)

lemma analyze_openai:
  assumes "\<not> truthy (HUGGINGFACE_API_KEY env)" and "getOpenAIClient env = Some c"
  shows "api_analyze env hfApi openaiApi msgs sys lang =
           openai_path env c openaiApi (fullSystemInstruction sys lang) msgs"
  using assms by (simp add: api_analyze_def getHFClient_None_iff [THEN iffD2] Let_def)

lemma analyze_unconfigured:
  assumes "\<not> truthy (HUGGINGFACE_API_KEY env)" and "getOpenAIClient env = None"
  shows "api_analyze env hfApi openaiApi msgs sys lang =
           \<lparr>response = \<lparr>status = 500, body = ErrorBody NO_KEYS_ERROR\<rparr>, calls = []\<rparr>"
  using assms by (simp add: api_analyze_def getHFClient_None_iff [THEN iffD2] Let_def)

lemma calls_hf_path: "calls (hf_path hf api full msgs) = [HFCall hf (hf_request full msgs)]"
  by (simp add: hf_path_def Let_def)

lemma calls_openai_path:
  "calls (openai_path env c api full msgs) = [OpenAICall c (openai_request env full msgs)]"
  by (simp add: openai_path_def Let_def)

section \<open>The scan of the most recent user message\<close>

lemma fst_foldl_scan_part:
  "fst (foldl scan_part acc ps) = None \<longleftrightarrow> fst acc = None \<and> (\<forall>p\<in>set ps. p_image p = None)"
  by (induction ps arbitrary: acc) (auto simp: scan_part_def Let_def split: option.splits)

lemma lastUserMsg_None_iff: "lastUserMsg msgs = None \<longleftrightarrow> (\<forall>m\<in>set msgs. role m \<noteq> User)"
  by (auto simp: lastUserMsg_def find_None_iff)

lemma find_SomeD: "List.find P xs = Some x \<Longrightarrow> x \<in> set xs \<and> P x"
  by (induction xs) (auto split: if_splits)

lemma lastUserMsg_SomeD: "lastUserMsg msgs = Some m \<Longrightarrow> m \<in> set msgs \<and> role m = User"
  using find_SomeD [of "\<lambda>m. role m = User" "rev msgs" m] by (simp add: lastUserMsg_def)

lemma lastImage_None_iff:
  "lastImage msgs = None \<longleftrightarrow>
     (case lastUserMsg msgs of None \<Rightarrow> True | Some m \<Rightarrow> \<forall>p\<in>set (parts m). p_image p = None)"
  by (simp add: lastImage_def last_scan_def fst_foldl_scan_part split: option.splits)

lemma text_or_empty_case: "text_or_empty p = (case p_text p of None \<Rightarrow> [] | Some t \<Rightarrow> t)"
  by (simp add: text_or_empty_def or_default_def split: option.splits)

section \<open>The requests of the two branches\<close>

lemma lastImage_Some_if:
  assumes "lastUserMsg msgs = Some m" and "p \<in> set (parts m)" and "p_image p \<noteq> None"
  shows "lastImage msgs \<noteq> None"
  using assms by (auto simp: lastImage_None_iff)

lemma hf_request_multimodal:
  "lastImage msgs \<noteq> None \<Longrightarrow>
     hf_request full msgs =
       \<lparr>model = HF_MODEL, messages = system_message full # map multimodal_message msgs,
        max_tokens = 1000\<rparr>"
  by (simp add: hf_request_def)

lemma hf_request_text_only:
  "lastImage msgs = None \<Longrightarrow>
     hf_request full msgs =
       \<lparr>model = HF_MODEL, messages = system_message full # map text_message msgs,
        max_tokens = 500\<rparr>"
  by (simp add: hf_request_def)

lemma hf_path_success:
  assumes "api hf (hf_request full msgs) = Inr r" and "choices r = c # cs"
  shows "response (hf_path hf api full msgs) = \<lparr>status = 200, body = TextBody (content (message c))\<rparr>"
  using assms by (simp add: hf_path_def Let_def first_choice_content_def)

lemma openai_path_success:
  assumes "api cl (openai_request env full msgs) = Inr r" and "choices r = c # cs"
  shows "response (openai_path env cl api full msgs) =
           \<lparr>status = 200, body = TextBody (content (message c))\<rparr>"
  using assms by (simp add: openai_path_def Let_def first_choice_content_def)

lemma hf_path_no_choice:
  assumes "api hf (hf_request full msgs) = Inr r" and "choices r = []"
  shows "response (hf_path hf api full msgs) =
           \<lparr>status = 500, body = ErrorBody (''Hugging Face Error: '' @ undefined_message_error)\<rparr>"
  using assms by (simp add: hf_path_def Let_def first_choice_content_def)

lemma openai_path_no_choice:
  assumes "api cl (openai_request env full msgs) = Inr r" and "choices r = []"
  shows "response (openai_path env cl api full msgs) = general_error undefined_message_error"
  using assms by (simp add: openai_path_def Let_def first_choice_content_def)

lemma general_error_undefined:
  "general_error undefined_message_error = \<lparr>status = 500, body = ErrorBody undefined_message_error\<rparr>"
  by (simp add: general_error_def undefined_message_error_def)

lemma getOpenAIClient_apiKey:
  "getOpenAIClient env = Some cl \<Longrightarrow>
     apiKey cl = or_default (js_or (OLLAMA_API_KEY env) (OPENAI_API_KEY env)) ''dummy-key-for-ollama''"
  by (auto simp: getOpenAIClient_def Let_def split: if_splits)

lemma filter_image_parts:
  "filter is_ImageUrl (map part_content ps) =
     map (\<lambda>p. ImageUrl (data_uri (the (p_image p)))) (filter (\<lambda>p. p_image p \<noteq> None) ps)"
  by (induction ps) (auto simp: part_content_def split: option.splits)

lemma multimodal_images_inlined:
  assumes "i < length msgs" and "j < length (parts (msgs ! i))"
    and "p_image (parts (msgs ! i) ! j) = Some img"
  shows "\<exists>ps. (sysm # map multimodal_message msgs) ! Suc i =
              \<lparr>w_role = role_name (role (msgs ! i)), w_content = Parts ps\<rparr>
            \<and> length ps = length (parts (msgs ! i))
            \<and> ps ! j = ImageUrl (''data:'' @ mimeType img @ '';base64,'' @ data img)"
  using assms by (simp add: multimodal_message_def part_content_def data_uri_def)

section \<open>What each adapter sends and returns\<close>

lemma hf_adapter_contract:
  assumes "HUGGINGFACE_API_KEY env = Some key" and "key \<noteq> []"
  shows "\<exists>req. calls (api_analyze env hfApi openaiApi msgs sys lang) = [HFCall (HfInference key) req]
         \<and> hd (messages req) = \<lparr>w_role = ''system'', w_content = Str (sys @ langInstruction lang)\<rparr>
         \<and> (\<forall>r c cs. hfApi (HfInference key) req = Inr r \<and> choices r = c # cs \<longrightarrow>
              response (api_analyze env hfApi openaiApi msgs sys lang) =
                \<lparr>status = 200, body = TextBody (content (message c))\<rparr>)
         \<and> (\<forall>r. hfApi (HfInference key) req = Inr r \<and> choices r = [] \<longrightarrow>
              response (api_analyze env hfApi openaiApi msgs sys lang) =
                \<lparr>status = 500,
                 body = ErrorBody (''Hugging Face Error: '' @ undefined_message_error)\<rparr>)"
proof -
  have a: "api_analyze env hfApi openaiApi msgs sys lang =
      hf_path (HfInference key) hfApi (fullSystemInstruction sys lang) msgs"
    by (rule analyze_hf [OF assms])
  let ?req = "hf_request (fullSystemInstruction sys lang) msgs"
  have "hd (messages ?req) = \<lparr>w_role = ''system'', w_content = Str (sys @ langInstruction lang)\<rparr>"
    by (simp add: hf_request_def system_message_def fullSystemInstruction_def)
  moreover have "\<forall>r c cs. hfApi (HfInference key) ?req = Inr r \<and> choices r = c # cs \<longrightarrow>
              response (api_analyze env hfApi openaiApi msgs sys lang) =
                \<lparr>status = 200, body = TextBody (content (message c))\<rparr>"
    unfolding a using hf_path_success by blast
  moreover have "\<forall>r. hfApi (HfInference key) ?req = Inr r \<and> choices r = [] \<longrightarrow>
              response (api_analyze env hfApi openaiApi msgs sys lang) =
                \<lparr>status = 500,
                 body = ErrorBody (''Hugging Face Error: '' @ undefined_message_error)\<rparr>"
    unfolding a using hf_path_no_choice by blast
  moreover have "calls (api_analyze env hfApi openaiApi msgs sys lang) = [HFCall (HfInference key) ?req]"
    unfolding a by (rule calls_hf_path)
  ultimately show ?thesis by blast
qed

lemma openai_adapter_contract:
  assumes "\<not> truthy (HUGGINGFACE_API_KEY env)"
    and "truthy (OLLAMA_API_KEY env) \<or> truthy (OPENAI_API_KEY env) \<or> truthy (OLLAMA_BASE_URL env)"
  shows "\<exists>client req. calls (api_analyze env hfApi openaiApi msgs sys lang) = [OpenAICall client req]
         \<and> apiKey client =
             or_default (js_or (OLLAMA_API_KEY env) (OPENAI_API_KEY env)) ''dummy-key-for-ollama''
         \<and> hd (messages req) = \<lparr>w_role = ''system'', w_content = Str (sys @ langInstruction lang)\<rparr>
         \<and> (\<forall>r c cs. openaiApi client req = Inr r \<and> choices r = c # cs \<longrightarrow>
              response (api_analyze env hfApi openaiApi msgs sys lang) =
                \<lparr>status = 200, body = TextBody (content (message c))\<rparr>)
         \<and> (\<forall>r. openaiApi client req = Inr r \<and> choices r = [] \<longrightarrow>
              response (api_analyze env hfApi openaiApi msgs sys lang) =
                \<lparr>status = 500, body = ErrorBody undefined_message_error\<rparr>)"
proof -
  from assms(2) obtain cl where cl: "getOpenAIClient env = Some cl"
    using getOpenAIClient_None_iff [of env] by (cases "getOpenAIClient env") auto
  have a: "api_analyze env hfApi openaiApi msgs sys lang =
      openai_path env cl openaiApi (fullSystemInstruction sys lang) msgs"
    by (rule analyze_openai [OF assms(1) cl])
  let ?req = "openai_request env (fullSystemInstruction sys lang) msgs"
  have "hd (messages ?req) = \<lparr>w_role = ''system'', w_content = Str (sys @ langInstruction lang)\<rparr>"
    by (simp add: openai_request_def Let_def system_message_def fullSystemInstruction_def)
  moreover have "\<forall>r c cs. openaiApi cl ?req = Inr r \<and> choices r = c # cs \<longrightarrow>
              response (api_analyze env hfApi openaiApi msgs sys lang) =
                \<lparr>status = 200, body = TextBody (content (message c))\<rparr>"
    unfolding a using openai_path_success by blast
  moreover have "\<forall>r. openaiApi cl ?req = Inr r \<and> choices r = [] \<longrightarrow>
              response (api_analyze env hfApi openaiApi msgs sys lang) =
                \<lparr>status = 500, body = ErrorBody undefined_message_error\<rparr>"
    unfolding a by (simp add: openai_path_no_choice general_error_undefined)
  moreover have "calls (api_analyze env hfApi openaiApi msgs sys lang) = [OpenAICall cl ?req]"
    unfolding a by (rule calls_openai_path)
  moreover have "apiKey cl =
      or_default (js_or (OLLAMA_API_KEY env) (OPENAI_API_KEY env)) ''dummy-key-for-ollama''"
    by (rule getOpenAIClient_apiKey [OF cl])
  ultimately show ?thesis by blast
qed

lemmas env_defs =
  env_none_def env_hf_only_def env_all_def env_ollama_def env_openai_def env_gemini_def

section \<open>Provider selection\<close>

text \<open>
  C1. Whenever HUGGINGFACE_API_KEY is present (set to a non-empty string, which is what the
  code tests), the handler makes exactly one outbound call, to the hosted-inference
  provider, and none to the OpenAI-compatible one, whatever the OpenAI / Ollama variables
  hold. A call to the OpenAI-compatible provider is made exactly when HUGGINGFACE_API_KEY
  is absent and one of OLLAMA_API_KEY, OPENAI_API_KEY, OLLAMA_BASE_URL is present.
\<close>

theorem router_priority:
  "(\<forall>key. HUGGINGFACE_API_KEY env = Some key \<and> key \<noteq> [] \<longrightarrow>
      calls (api_analyze env hfApi openaiApi msgs sys lang) =
        [HFCall (HfInference key) (hf_request (fullSystemInstruction sys lang) msgs)]
      \<and> \<not> list_ex is_OpenAICall (calls (api_analyze env hfApi openaiApi msgs sys lang)))
   \<and> (list_ex is_OpenAICall (calls (api_analyze env hfApi openaiApi msgs sys lang)) \<longleftrightarrow>
        \<not> truthy (HUGGINGFACE_API_KEY env) \<and>
        (truthy (OLLAMA_API_KEY env) \<or> truthy (OPENAI_API_KEY env) \<or> truthy (OLLAMA_BASE_URL env)))"
proof (cases "truthy (HUGGINGFACE_API_KEY env)")
  case True
  then obtain key where k: "HUGGINGFACE_API_KEY env = Some key" "key \<noteq> []"
    by (cases "HUGGINGFACE_API_KEY env") auto
  show ?thesis
    using True k by (simp add: analyze_hf [OF k] calls_hf_path)
next
  case False
  show ?thesis
  proof (cases "getOpenAIClient env")
    case None
    with False show ?thesis
      using getOpenAIClient_None_iff [of env]
      by (cases "HUGGINGFACE_API_KEY env") (auto simp: analyze_unconfigured)
  next
    case (Some c)
    with False show ?thesis
      using getOpenAIClient_None_iff [of env]
      by (cases "HUGGINGFACE_API_KEY env") (auto simp: analyze_openai calls_openai_path)
  qed
qed

theorem router_priority_witness:
  "HUGGINGFACE_API_KEY env_all = Some ''hf_key'' \<and> truthy (OPENAI_API_KEY env_all)
     \<and> truthy (OLLAMA_BASE_URL env_all)
     \<and> calls (api_analyze env_all rejecting rejecting scenario_messages ''Describe.'' ''French'') =
         [HFCall (HfInference ''hf_key'')
            (hf_request (fullSystemInstruction ''Describe.'' ''French'') scenario_messages)]
     \<and> \<not> list_ex is_OpenAICall
           (calls (api_analyze env_all rejecting rejecting scenario_messages ''Describe.'' ''French''))
     \<and> list_ex is_OpenAICall
           (calls (api_analyze env_ollama rejecting rejecting scenario_messages ''Describe.'' ''French''))"
  using router_priority [of env_all rejecting rejecting scenario_messages "''Describe.''" "''French''"]
    router_priority [of env_ollama rejecting rejecting scenario_messages "''Describe.''" "''French''"]
  by (simp add: env_defs)

text \<open>
  C2. When the hosted-inference provider is selected and its call fails, the handler
  answers status 500 and passes the provider's error on: the message of a rejected call,
  behind the prefix the handler adds; a response without a first choice is answered the
  same way, with the message of the error raised on reading it. That one call is the only
  one made: none goes to the OpenAI-compatible provider, whether or not it is configured.
\<close>

theorem hf_failure_no_fallback:
  assumes "HUGGINGFACE_API_KEY env = Some key" and "key \<noteq> []"
  shows "(\<forall>err. hfApi (HfInference key) (hf_request (fullSystemInstruction sys lang) msgs) = Inl err \<longrightarrow>
            response (api_analyze env hfApi openaiApi msgs sys lang) =
              \<lparr>status = 500, body = ErrorBody (''Hugging Face Error: '' @ err)\<rparr>)
         \<and> (\<forall>r. hfApi (HfInference key) (hf_request (fullSystemInstruction sys lang) msgs) = Inr r
                 \<and> choices r = [] \<longrightarrow>
              status (response (api_analyze env hfApi openaiApi msgs sys lang)) = 500
              \<and> (\<exists>e. body (response (api_analyze env hfApi openaiApi msgs sys lang)) =
                        ErrorBody (''Hugging Face Error: '' @ e)))
         \<and> calls (api_analyze env hfApi openaiApi msgs sys lang) =
             [HFCall (HfInference key) (hf_request (fullSystemInstruction sys lang) msgs)]
         \<and> \<not> list_ex is_OpenAICall (calls (api_analyze env hfApi openaiApi msgs sys lang))"
proof -
  have a: "api_analyze env hfApi openaiApi msgs sys lang =
      hf_path (HfInference key) hfApi (fullSystemInstruction sys lang) msgs"
    by (rule analyze_hf [OF assms])
  have "\<forall>err. hfApi (HfInference key) (hf_request (fullSystemInstruction sys lang) msgs) = Inl err \<longrightarrow>
            response (api_analyze env hfApi openaiApi msgs sys lang) =
              \<lparr>status = 500, body = ErrorBody (''Hugging Face Error: '' @ err)\<rparr>"
    unfolding a by (simp add: hf_path_def Let_def)
  moreover have "\<forall>r. hfApi (HfInference key) (hf_request (fullSystemInstruction sys lang) msgs) = Inr r
                 \<and> choices r = [] \<longrightarrow>
              status (response (api_analyze env hfApi openaiApi msgs sys lang)) = 500
              \<and> (\<exists>e. body (response (api_analyze env hfApi openaiApi msgs sys lang)) =
                        ErrorBody (''Hugging Face Error: '' @ e))"
    unfolding a by (simp add: hf_path_no_choice)
  moreover have "calls (api_analyze env hfApi openaiApi msgs sys lang) =
             [HFCall (HfInference key) (hf_request (fullSystemInstruction sys lang) msgs)]"
    unfolding a by (rule calls_hf_path)
  ultimately show ?thesis by simp
qed

theorem hf_failure_no_fallback_witness:
  "HUGGINGFACE_API_KEY env_all = Some ''hf_key'' \<and> getOpenAIClient env_all \<noteq> None
     \<and> response (api_analyze env_all rejecting (answering ''A cat.'') scenario_messages
          ''Describe.'' ''French'') =
         \<lparr>status = 500, body = ErrorBody ''Hugging Face Error: 503 Service Unavailable''\<rparr>
     \<and> status (response (api_analyze env_all no_choices (answering ''A cat.'') scenario_messages
          ''Describe.'' ''French'')) = 500
     \<and> \<not> list_ex is_OpenAICall
           (calls (api_analyze env_all rejecting (answering ''A cat.'') scenario_messages
              ''Describe.'' ''French''))"
proof -
  have h1: "HUGGINGFACE_API_KEY env_all = Some ''hf_key''" by (simp add: env_defs)
  have h2: "''hf_key'' \<noteq> []" by simp
  have h3: "getOpenAIClient env_all \<noteq> None"
    by (simp add: getOpenAIClient_None_iff env_defs)
  note t1 = hf_failure_no_fallback [OF h1 h2, of rejecting "''Describe.''" "''French''"
      scenario_messages "answering ''A cat.''"]
  note t2 = hf_failure_no_fallback [OF h1 h2, of no_choices "''Describe.''" "''French''"
      scenario_messages "answering ''A cat.''"]
  have 1: "response (api_analyze env_all rejecting (answering ''A cat.'') scenario_messages
          ''Describe.'' ''French'') =
         \<lparr>status = 500, body = ErrorBody ''Hugging Face Error: 503 Service Unavailable''\<rparr>"
    using t1 by (simp add: rejecting_def)
  have 2: "status (response (api_analyze env_all no_choices (answering ''A cat.'') scenario_messages
          ''Describe.'' ''French'')) = 500"
    using t2 by (simp add: no_choices_def)
  show ?thesis using h1 h3 1 2 t1 by simp
qed

text \<open>
  C3. When none of HUGGINGFACE_API_KEY, OPENAI_API_KEY, OLLAMA_API_KEY and OLLAMA_BASE_URL is
  present, the handler answers status 500 with an error that names the variables to set,
  and makes no outbound call.
\<close>

theorem unconfigured_fails:
  assumes "\<not> truthy (HUGGINGFACE_API_KEY env)" and "\<not> truthy (OPENAI_API_KEY env)"
    and "\<not> truthy (OLLAMA_API_KEY env)" and "\<not> truthy (OLLAMA_BASE_URL env)"
  shows "api_analyze env hfApi openaiApi msgs sys lang =
           \<lparr>response = \<lparr>status = 500,
               body = ErrorBody ''No API keys configured. Please set HUGGINGFACE_API_KEY, OPENAI_API_KEY, or OLLAMA_BASE_URL.''\<rparr>,
            calls = []\<rparr>"
  using assms
  by (simp add: analyze_unconfigured getOpenAIClient_None_iff [THEN iffD2] NO_KEYS_ERROR_def)

theorem unconfigured_fails_witness:
  "\<not> truthy (HUGGINGFACE_API_KEY env_none) \<and> \<not> truthy (OPENAI_API_KEY env_none)
     \<and> \<not> truthy (OLLAMA_API_KEY env_none) \<and> \<not> truthy (OLLAMA_BASE_URL env_none)
     \<and> status (response (api_analyze env_none (answering ''A cat.'') (answering ''A cat.'')
          scenario_messages ''Describe.'' ''French'')) = 500
     \<and> calls (api_analyze env_none (answering ''A cat.'') (answering ''A cat.'')
          scenario_messages ''Describe.'' ''French'') = []"
  using unconfigured_fails [of env_none "answering ''A cat.''" "answering ''A cat.''"
      scenario_messages "''Describe.''" "''French''"]
  by (simp add: env_defs)

section \<open>The hosted-inference adapter, text-only branch\<close>

text \<open>
  C4 as stated fails on the content of a message: the texts of the parts are joined with a
  space between them, they are not concatenated. For one user turn with the text parts
  \<open>a\<close> and \<open>b\<close> and no image, the outbound content is \<open>a b\<close> where the concatenation
  is \<open>ab\<close>.
\<close>

theorem text_only_concatenation_counterexample:
  "lastUserMsg two_texts_messages = Some (two_texts_messages ! 0)
   \<and> map p_image (parts (two_texts_messages ! 0)) = [None, None]
   \<and> calls (api_analyze env_hf_only (answering ''ok'') (answering ''ok'') two_texts_messages
        ''S'' ''English'') =
       [HFCall (HfInference ''hf_key'')
          \<lparr>model = ''meta-llama/Llama-3.2-11B-Vision-Instruct'',
           messages = [\<lparr>w_role = ''system'', w_content = Str (fullSystemInstruction ''S'' ''English'')\<rparr>,
                       \<lparr>w_role = ''user'', w_content = Str ''a b''\<rparr>],
           max_tokens = 500\<rparr>]
   \<and> concat (map text_or_empty (parts (two_texts_messages ! 0))) = ''ab''
   \<and> Str ''a b'' \<noteq> Str (concat (map text_or_empty (parts (two_texts_messages ! 0))))"
  by (simp add: env_defs analyze_hf calls_hf_path hf_request_def lastImage_def last_scan_def
      lastUserMsg_def two_texts_messages_def text_part_def scan_part_def or_default_def
      text_message_def system_message_def HF_MODEL_def text_or_empty_def)

text \<open>
  C4, amended. For every conversation whose most recent user message has no image part,
  the hosted-inference adapter sends a text-only request: the system message followed by
  one message per turn whose content is the string of its parts' texts joined by single
  spaces (a part without text counting as the empty string), so that no image payload is
  anywhere in the body; and the output-token budget is 500.
\<close>

theorem text_only_request:
  assumes "HUGGINGFACE_API_KEY env = Some key" and "key \<noteq> []"
    and "lastUserMsg msgs = Some m" and "\<forall>p\<in>set (parts m). p_image p = None"
  shows "\<exists>req. calls (api_analyze env hfApi openaiApi msgs sys lang) = [HFCall (HfInference key) req]
           \<and> max_tokens req = 500
           \<and> messages req =
               \<lparr>w_role = ''system'', w_content = Str (fullSystemInstruction sys lang)\<rparr> #
               map (\<lambda>m. \<lparr>w_role = role_name (role m),
                          w_content = Str (join_space (map text_or_empty (parts m)))\<rparr>) msgs
           \<and> \<not> has_image_payload req"
proof -
  have li: "lastImage msgs = None"
    using assms(3,4) by (simp add: lastImage_None_iff)
  let ?req = "hf_request (fullSystemInstruction sys lang) msgs"
  have "calls (api_analyze env hfApi openaiApi msgs sys lang) = [HFCall (HfInference key) ?req]"
    by (simp add: analyze_hf [OF assms(1,2)] calls_hf_path)
  moreover have "max_tokens ?req = 500"
    using li by (simp add: hf_request_def)
  moreover have "messages ?req =
               \<lparr>w_role = ''system'', w_content = Str (fullSystemInstruction sys lang)\<rparr> #
               map (\<lambda>m. \<lparr>w_role = role_name (role m),
                          w_content = Str (join_space (map text_or_empty (parts m)))\<rparr>) msgs"
    using li by (simp add: hf_request_def system_message_def text_message_def)
  moreover have "\<not> has_image_payload ?req"
    using li by (simp add: hf_request_def has_image_payload_def system_message_def
        text_message_def list_ex_iff)
  ultimately show ?thesis by blast
qed

theorem text_only_request_witness:
  "HUGGINGFACE_API_KEY env_hf_only = Some ''hf_key'' \<and> ''hf_key'' \<noteq> []
   \<and> lastUserMsg two_texts_messages = Some (two_texts_messages ! 0)
   \<and> map p_image (parts (two_texts_messages ! 0)) = [None, None]
   \<and> (\<exists>req. calls (api_analyze env_hf_only (answering ''ok'') (answering ''ok'')
                two_texts_messages ''S'' ''English'') = [HFCall (HfInference ''hf_key'') req]
           \<and> max_tokens req = 500 \<and> \<not> has_image_payload req)"
proof -
  have h1: "HUGGINGFACE_API_KEY env_hf_only = Some ''hf_key''" by (simp add: env_defs)
  have h2: "''hf_key'' \<noteq> []" by simp
  have h3: "lastUserMsg two_texts_messages = Some (two_texts_messages ! 0)"
    by (simp add: lastUserMsg_def two_texts_messages_def)
  have h4: "\<forall>p\<in>set (parts (two_texts_messages ! 0)). p_image p = None"
    by (simp add: two_texts_messages_def text_part_def)
  from text_only_request [OF h1 h2 h3 h4, of "answering ''ok''" "answering ''ok''" "''S''" "''English''"]
  moreover have "map p_image (parts (two_texts_messages ! 0)) = [None, None]"
    by (simp add: two_texts_messages_def text_part_def)
  ultimately show ?thesis using h1 h3 by blast
qed

text \<open>
  C10. With HUGGINGFACE_API_KEY present: for every conversation without a user message, the
  empty one included, the lookup of the most recent user message finds nothing, no image
  is detected, and the request is built and sent on the text-only branch: the system
  message followed by the serialised messages, none for the empty conversation, with the
  budget of 500. The answer then depends on the provider alone: a response with a first
  choice gives status 200.
\<close>

theorem no_user_message_text_only:
  assumes "HUGGINGFACE_API_KEY env = Some key" and "key \<noteq> []"
    and "\<forall>m\<in>set msgs. role m \<noteq> User"
  shows "lastUserMsg msgs = None \<and> lastImage msgs = None
     \<and> calls (api_analyze env hfApi openaiApi msgs sys lang) =
         [HFCall (HfInference key)
            \<lparr>model = ''meta-llama/Llama-3.2-11B-Vision-Instruct'',
             messages =
               \<lparr>w_role = ''system'', w_content = Str (sys @ langInstruction lang)\<rparr> #
               map (\<lambda>m. \<lparr>w_role = role_name (role m),
                          w_content = Str (join_space (map text_or_empty (parts m)))\<rparr>) msgs,
             max_tokens = 500\<rparr>]
     \<and> (\<forall>r c cs.
           hfApi (HfInference key) (hf_request (fullSystemInstruction sys lang) msgs) = Inr r
             \<and> choices r = c # cs \<longrightarrow>
           response (api_analyze env hfApi openaiApi msgs sys lang) =
             \<lparr>status = 200, body = TextBody (content (message c))\<rparr>)"
proof -
  have lu: "lastUserMsg msgs = None"
    using assms(3) by (simp add: lastUserMsg_None_iff)
  then have li: "lastImage msgs = None"
    by (simp add: lastImage_None_iff)
  have a: "api_analyze env hfApi openaiApi msgs sys lang =
      hf_path (HfInference key) hfApi (fullSystemInstruction sys lang) msgs"
    by (rule analyze_hf [OF assms(1,2)])
  have "calls (api_analyze env hfApi openaiApi msgs sys lang) =
         [HFCall (HfInference key)
            \<lparr>model = ''meta-llama/Llama-3.2-11B-Vision-Instruct'',
             messages =
               \<lparr>w_role = ''system'', w_content = Str (sys @ langInstruction lang)\<rparr> #
               map (\<lambda>m. \<lparr>w_role = role_name (role m),
                          w_content = Str (join_space (map text_or_empty (parts m)))\<rparr>) msgs,
             max_tokens = 500\<rparr>]"
    unfolding a calls_hf_path hf_request_text_only [OF li]
    by (simp add: HF_MODEL_def system_message_def fullSystemInstruction_def text_message_def)
  moreover have "\<forall>r c cs.
           hfApi (HfInference key) (hf_request (fullSystemInstruction sys lang) msgs) = Inr r
             \<and> choices r = c # cs \<longrightarrow>
           response (api_analyze env hfApi openaiApi msgs sys lang) =
             \<lparr>status = 200, body = TextBody (content (message c))\<rparr>"
    unfolding a using hf_path_success by blast
  ultimately show ?thesis using lu li by blast
qed

theorem no_user_message_text_only_witness:
  "HUGGINGFACE_API_KEY env_hf_only = Some ''hf_key'' \<and> ''hf_key'' \<noteq> []
   \<and> list_all (\<lambda>m. role m \<noteq> User) assistant_only_messages
   \<and> lastUserMsg [] = None
   \<and> calls (api_analyze env_hf_only (answering ''Hi.'') rejecting [] ''S'' ''English'') =
       [HFCall (HfInference ''hf_key'')
          \<lparr>model = ''meta-llama/Llama-3.2-11B-Vision-Instruct'',
           messages = [\<lparr>w_role = ''system'', w_content = Str (''S'' @ langInstruction ''English'')\<rparr>],
           max_tokens = 500\<rparr>]
   \<and> response (api_analyze env_hf_only (answering ''Hi.'') rejecting [] ''S'' ''English'') =
       \<lparr>status = 200, body = TextBody (Some ''Hi.'')\<rparr>
   \<and> calls (api_analyze env_hf_only (answering ''Hi.'') rejecting assistant_only_messages
        ''S'' ''English'') =
       [HFCall (HfInference ''hf_key'')
          \<lparr>model = ''meta-llama/Llama-3.2-11B-Vision-Instruct'',
           messages = [\<lparr>w_role = ''system'', w_content = Str (''S'' @ langInstruction ''English'')\<rparr>,
                       \<lparr>w_role = ''assistant'', w_content = Str ''Hello.''\<rparr>],
           max_tokens = 500\<rparr>]"
proof -
  have h1: "HUGGINGFACE_API_KEY env_hf_only = Some ''hf_key''" by (simp add: env_defs)
  have h2: "''hf_key'' \<noteq> []" by simp
  have h3: "\<forall>m\<in>set assistant_only_messages. role m \<noteq> User"
    by (simp add: assistant_only_messages_def)
  have h4: "\<forall>m\<in>set ([] :: ChatMessage list). role m \<noteq> User" by simp
  note t1 = no_user_message_text_only [OF h1 h2 h4, of "answering ''Hi.''" rejecting "''S''" "''English''"]
  note t2 = no_user_message_text_only [OF h1 h2 h3, of "answering ''Hi.''" rejecting "''S''" "''English''"]
  have r: "response (api_analyze env_hf_only (answering ''Hi.'') rejecting [] ''S'' ''English'') =
       \<lparr>status = 200, body = TextBody (Some ''Hi.'')\<rparr>"
    using t1 by (simp add: answering_def)
  have c2: "calls (api_analyze env_hf_only (answering ''Hi.'') rejecting assistant_only_messages
        ''S'' ''English'') =
       [HFCall (HfInference ''hf_key'')
          \<lparr>model = ''meta-llama/Llama-3.2-11B-Vision-Instruct'',
           messages = [\<lparr>w_role = ''system'', w_content = Str (''S'' @ langInstruction ''English'')\<rparr>,
                       \<lparr>w_role = ''assistant'', w_content = Str ''Hello.''\<rparr>],
           max_tokens = 500\<rparr>]"
    using t2 by (simp add: assistant_only_messages_def text_part_def text_or_empty_def or_default_def)
  show ?thesis
    using h1 h3 t1 r c2 by (simp add: list_all_iff)
qed

section \<open>The hosted-inference adapter, multimodal branch\<close>

text \<open>
  C5. With HUGGINGFACE_API_KEY present: for every conversation whose most recent user
  message has exactly one image part, the adapter sends the multimodal request, in which
  that message's content array has exactly one \<open>image_url\<close> entry, the data URI
  \<open>data:<mimeType>;base64,<data>\<close> of that image. For the conversation of the spec's
  scenario, system instruction \<open>Describe.\<close> and language \<open>French\<close>, the system
  content ends in \<open>French.\<close>, the user content array is the \<open>image_url\<close> entry
  \<open>data:image/png;base64,AAA\<close> followed by the text entry \<open>What is this?\<close>, and
  the handler answers status 200 with the provider's text.
\<close>

theorem single_image_embedded:
  assumes "HUGGINGFACE_API_KEY env = Some key" and "key \<noteq> []"
  shows "(\<forall>msgs sys lang m p img.
            lastUserMsg msgs = Some m \<and> filter (\<lambda>p. p_image p \<noteq> None) (parts m) = [p]
              \<and> p_image p = Some img \<longrightarrow>
            (\<exists>req. calls (api_analyze env hfApi openaiApi msgs sys lang) =
                      [HFCall (HfInference key) req]
               \<and> max_tokens req = 1000
               \<and> messages req =
                   \<lparr>w_role = ''system'', w_content = Str (sys @ langInstruction lang)\<rparr> #
                   map multimodal_message msgs
               \<and> m \<in> set msgs
               \<and> multimodal_message m =
                   \<lparr>w_role = ''user'', w_content = Parts (map part_content (parts m))\<rparr>
               \<and> filter is_ImageUrl (map part_content (parts m)) =
                   [ImageUrl (''data:'' @ mimeType img @ '';base64,'' @ data img)]))
       \<and> calls (api_analyze env hfApi openaiApi scenario_messages ''Describe.'' ''French'') =
           [HFCall (HfInference key)
              \<lparr>model = ''meta-llama/Llama-3.2-11B-Vision-Instruct'',
               messages =
                 [\<lparr>w_role = ''system'',
                   w_content = Str (''Describe.'' @ [CHR 10, CHR 10] @
                     ''IMPORTANT: You MUST provide your response in '' @ ''French.'')\<rparr>,
                  \<lparr>w_role = ''user'',
                   w_content = Parts [ImageUrl ''data:image/png;base64,AAA'',
                                      TextPart ''What is this?'']\<rparr>],
               max_tokens = 1000\<rparr>]
       \<and> (\<forall>r c cs.
             hfApi (HfInference key)
               (hf_request (fullSystemInstruction ''Describe.'' ''French'') scenario_messages) = Inr r
               \<and> choices r = c # cs \<longrightarrow>
             response (api_analyze env hfApi openaiApi scenario_messages ''Describe.'' ''French'') =
               \<lparr>status = 200, body = TextBody (content (message c))\<rparr>)"
proof (intro conjI allI impI)
  fix msgs sys lang m p img
  assume h: "lastUserMsg msgs = Some m \<and> filter (\<lambda>p. p_image p \<noteq> None) (parts m) = [p]
              \<and> p_image p = Some img"
  then have "p \<in> set (filter (\<lambda>p. p_image p \<noteq> None) (parts m))" by simp
  then have pin: "p \<in> set (parts m)" by simp
  have li: "lastImage msgs \<noteq> None"
    using lastImage_Some_if [of msgs m p] h pin by simp
  have m: "m \<in> set msgs" "role m = User"
    using lastUserMsg_SomeD [of msgs m] h by simp_all
  have f: "filter is_ImageUrl (map part_content (parts m)) =
            [ImageUrl (''data:'' @ mimeType img @ '';base64,'' @ data img)]"
    using h by (simp add: filter_image_parts data_uri_def)
  let ?req = "hf_request (fullSystemInstruction sys lang) msgs"
  have "calls (api_analyze env hfApi openaiApi msgs sys lang) = [HFCall (HfInference key) ?req]"
    by (simp add: analyze_hf [OF assms] calls_hf_path)
  moreover have "max_tokens ?req = 1000"
    by (simp add: hf_request_multimodal [OF li])
  moreover have "messages ?req =
      \<lparr>w_role = ''system'', w_content = Str (sys @ langInstruction lang)\<rparr> #
      map multimodal_message msgs"
    by (simp add: hf_request_multimodal [OF li] system_message_def fullSystemInstruction_def)
  moreover have "multimodal_message m =
      \<lparr>w_role = ''user'', w_content = Parts (map part_content (parts m))\<rparr>"
    using m by (simp add: multimodal_message_def)
  ultimately show "\<exists>req. calls (api_analyze env hfApi openaiApi msgs sys lang) =
                      [HFCall (HfInference key) req]
               \<and> max_tokens req = 1000
               \<and> messages req =
                   \<lparr>w_role = ''system'', w_content = Str (sys @ langInstruction lang)\<rparr> #
                   map multimodal_message msgs
               \<and> m \<in> set msgs
               \<and> multimodal_message m =
                   \<lparr>w_role = ''user'', w_content = Parts (map part_content (parts m))\<rparr>
               \<and> filter is_ImageUrl (map part_content (parts m)) =
                   [ImageUrl (''data:'' @ mimeType img @ '';base64,'' @ data img)]"
    using m f by blast
next
  have li: "lastImage scenario_messages \<noteq> None"
    by (simp add: lastImage_def last_scan_def lastUserMsg_def scenario_messages_def
        scan_part_def image_part_def text_part_def or_default_def)
  show "calls (api_analyze env hfApi openaiApi scenario_messages ''Describe.'' ''French'') =
           [HFCall (HfInference key)
              \<lparr>model = ''meta-llama/Llama-3.2-11B-Vision-Instruct'',
               messages =
                 [\<lparr>w_role = ''system'',
                   w_content = Str (''Describe.'' @ [CHR 10, CHR 10] @
                     ''IMPORTANT: You MUST provide your response in '' @ ''French.'')\<rparr>,
                  \<lparr>w_role = ''user'',
                   w_content = Parts [ImageUrl ''data:image/png;base64,AAA'',
                                      TextPart ''What is this?'']\<rparr>],
               max_tokens = 1000\<rparr>]"
    unfolding analyze_hf [OF assms] calls_hf_path hf_request_multimodal [OF li]
    by (simp add: scenario_messages_def system_message_def multimodal_message_def
        part_content_def image_part_def text_part_def data_uri_def text_or_empty_def
        or_default_def fullSystemInstruction_def langInstruction_def HF_MODEL_def)
next
  fix r c cs
  assume "hfApi (HfInference key)
               (hf_request (fullSystemInstruction ''Describe.'' ''French'') scenario_messages) = Inr r
               \<and> choices r = c # cs"
  then show "response (api_analyze env hfApi openaiApi scenario_messages ''Describe.'' ''French'') =
               \<lparr>status = 200, body = TextBody (content (message c))\<rparr>"
    using hf_path_success [of hfApi "HfInference key" _ scenario_messages r c cs]
    by (simp add: analyze_hf [OF assms])
qed

theorem single_image_embedded_witness:
  "HUGGINGFACE_API_KEY env_hf_only = Some ''hf_key'' \<and> ''hf_key'' \<noteq> []
   \<and> lastUserMsg scenario_messages = Some (scenario_messages ! 0)
   \<and> filter (\<lambda>p. p_image p \<noteq> None) (parts (scenario_messages ! 0)) = [image_part ''AAA'' ''image/png'']
   \<and> (\<exists>req. calls (api_analyze env_hf_only (answering ''A cat.'') rejecting scenario_messages
                ''Describe.'' ''French'') = [HFCall (HfInference ''hf_key'') req]
          \<and> max_tokens req = 1000
          \<and> filter is_ImageUrl (map part_content (parts (scenario_messages ! 0))) =
              [ImageUrl ''data:image/png;base64,AAA''])
   \<and> response (api_analyze env_hf_only (answering ''A cat.'') rejecting scenario_messages
        ''Describe.'' ''French'') = \<lparr>status = 200, body = TextBody (Some ''A cat.'')\<rparr>"
proof -
  have h1: "HUGGINGFACE_API_KEY env_hf_only = Some ''hf_key''" by (simp add: env_defs)
  have h2: "''hf_key'' \<noteq> []" by simp
  note t = single_image_embedded [OF h1 h2, of "answering ''A cat.''" rejecting]
  have h3: "lastUserMsg scenario_messages = Some (scenario_messages ! 0)"
    by (simp add: lastUserMsg_def scenario_messages_def)
  have h4: "filter (\<lambda>p. p_image p \<noteq> None) (parts (scenario_messages ! 0)) =
              [image_part ''AAA'' ''image/png'']"
    by (simp add: scenario_messages_def image_part_def text_part_def)
  have h5: "p_image (image_part ''AAA'' ''image/png'') =
              Some \<lparr>data = ''AAA'', mimeType = ''image/png''\<rparr>"
    by (simp add: image_part_def)
  from t have "\<exists>req. calls (api_analyze env_hf_only (answering ''A cat.'') rejecting
                 scenario_messages ''Describe.'' ''French'') = [HFCall (HfInference ''hf_key'') req]
          \<and> max_tokens req = 1000
          \<and> filter is_ImageUrl (map part_content (parts (scenario_messages ! 0))) =
              [ImageUrl ''data:image/png;base64,AAA'']"
    using h3 h4 h5 by fastforce
  moreover from t have "response (api_analyze env_hf_only (answering ''A cat.'') rejecting
        scenario_messages ''Describe.'' ''French'') = \<lparr>status = 200, body = TextBody (Some ''A cat.'')\<rparr>"
    by (simp add: answering_def)
  ultimately show ?thesis using h1 h3 h4 by simp
qed



section \<open>The OpenAI-compatible adapter\<close>

text \<open>
  C6. Whenever the request is routed to the OpenAI-compatible adapter (HUGGINGFACE_API_KEY
  absent, and an OpenAI / Ollama key or OLLAMA_BASE_URL present), the one outbound request
  holds the system message followed by every message of the conversation in order, each as
  a content array in which every image part is the \<open>image_url\<close> entry with its base64
  data URI; the model is \<open>llava\<close> when OLLAMA_BASE_URL is present and \<open>gpt-4o\<close>
  otherwise.
\<close>

theorem openai_serializes_conversation:
  assumes "\<not> truthy (HUGGINGFACE_API_KEY env)"
    and "truthy (OLLAMA_API_KEY env) \<or> truthy (OPENAI_API_KEY env) \<or> truthy (OLLAMA_BASE_URL env)"
  shows "\<exists>client req.
           calls (api_analyze env hfApi openaiApi msgs sys lang) = [OpenAICall client req]
           \<and> model req = (if truthy (OLLAMA_BASE_URL env) then ''llava'' else ''gpt-4o'')
           \<and> messages req =
               \<lparr>w_role = ''system'', w_content = Str (sys @ langInstruction lang)\<rparr> #
               map (\<lambda>msg. \<lparr>w_role = role_name (role msg),
                            w_content = Parts (map part_content (parts msg))\<rparr>) msgs
           \<and> (\<forall>i j img. i < length msgs \<and> j < length (parts (msgs ! i))
                  \<and> p_image (parts (msgs ! i) ! j) = Some img \<longrightarrow>
                (\<exists>ps. messages req ! Suc i =
                         \<lparr>w_role = role_name (role (msgs ! i)), w_content = Parts ps\<rparr>
                      \<and> length ps = length (parts (msgs ! i))
                      \<and> ps ! j = ImageUrl (''data:'' @ mimeType img @ '';base64,'' @ data img)))"
proof -
  from assms(2) obtain c where c: "getOpenAIClient env = Some c"
    using getOpenAIClient_None_iff [of env] by (cases "getOpenAIClient env") auto
  let ?req = "openai_request env (fullSystemInstruction sys lang) msgs"
  have m: "messages ?req = system_message (fullSystemInstruction sys lang) # map multimodal_message msgs"
    by (simp add: openai_request_def Let_def)
  have "calls (api_analyze env hfApi openaiApi msgs sys lang) = [OpenAICall c ?req]"
    by (simp add: analyze_openai [OF assms(1) c] calls_openai_path)
  moreover have "model ?req = (if truthy (OLLAMA_BASE_URL env) then ''llava'' else ''gpt-4o'')"
    by (simp add: openai_request_def Let_def)
  moreover have "messages ?req =
               \<lparr>w_role = ''system'', w_content = Str (sys @ langInstruction lang)\<rparr> #
               map (\<lambda>msg. \<lparr>w_role = role_name (role msg),
                            w_content = Parts (map part_content (parts msg))\<rparr>) msgs"
    unfolding m by (simp add: system_message_def fullSystemInstruction_def multimodal_message_def)
  moreover have "\<forall>i j img. i < length msgs \<and> j < length (parts (msgs ! i))
                  \<and> p_image (parts (msgs ! i) ! j) = Some img \<longrightarrow>
                (\<exists>ps. messages ?req ! Suc i =
                         \<lparr>w_role = role_name (role (msgs ! i)), w_content = Parts ps\<rparr>
                      \<and> length ps = length (parts (msgs ! i))
                      \<and> ps ! j = ImageUrl (''data:'' @ mimeType img @ '';base64,'' @ data img))"
    unfolding m using multimodal_images_inlined by blast
  ultimately show ?thesis by blast
qed

theorem openai_serializes_conversation_witness:
  "\<not> truthy (HUGGINGFACE_API_KEY env_ollama) \<and> truthy (OLLAMA_BASE_URL env_ollama)
   \<and> \<not> truthy (HUGGINGFACE_API_KEY env_openai) \<and> truthy (OPENAI_API_KEY env_openai)
   \<and> (\<exists>client req.
         calls (api_analyze env_ollama rejecting (answering ''A cat.'') history_messages ''S'' ''English'') =
           [OpenAICall client req]
         \<and> model req = ''llava''
         \<and> messages req ! 1 = \<lparr>w_role = ''user'', w_content = Parts [ImageUrl ''data:image/png;base64,AAA'']\<rparr>
         \<and> messages req ! 3 = \<lparr>w_role = ''user'',
              w_content = Parts [ImageUrl ''data:image/jpeg;base64,BBB'', TextPart ''And this?'']\<rparr>)
   \<and> (\<exists>client req.
         calls (api_analyze env_openai rejecting (answering ''A cat.'') history_messages ''S'' ''English'') =
           [OpenAICall client req]
         \<and> model req = ''gpt-4o'')"
proof -
  have a: "\<not> truthy (HUGGINGFACE_API_KEY env_ollama)" "truthy (OLLAMA_BASE_URL env_ollama)"
    "\<not> truthy (HUGGINGFACE_API_KEY env_openai)" "truthy (OPENAI_API_KEY env_openai)"
    "\<not> truthy (OLLAMA_BASE_URL env_openai)"
    by (simp_all add: env_defs)
  have p: "map (\<lambda>msg. \<lparr>w_role = role_name (role msg),
                        w_content = Parts (map part_content (parts msg))\<rparr>) history_messages =
      [\<lparr>w_role = ''user'', w_content = Parts [ImageUrl ''data:image/png;base64,AAA'']\<rparr>,
       \<lparr>w_role = ''assistant'', w_content = Parts [TextPart ''A cat.'']\<rparr>,
       \<lparr>w_role = ''user'',
        w_content = Parts [ImageUrl ''data:image/jpeg;base64,BBB'', TextPart ''And this?'']\<rparr>]"
    by (simp add: history_messages_def part_content_def image_part_def text_part_def
        data_uri_def text_or_empty_def or_default_def)
  from openai_serializes_conversation [of env_ollama, OF a(1), of rejecting "answering ''A cat.''"
      history_messages "''S''" "''English''"] a(2)
  obtain client req where
    "calls (api_analyze env_ollama rejecting (answering ''A cat.'') history_messages ''S'' ''English'') =
           [OpenAICall client req]" "model req = ''llava''"
    "messages req =
               \<lparr>w_role = ''system'', w_content = Str (''S'' @ langInstruction ''English'')\<rparr> #
               map (\<lambda>msg. \<lparr>w_role = role_name (role msg),
                            w_content = Parts (map part_content (parts msg))\<rparr>) history_messages"
    by auto
  then have 1: "\<exists>client req.
         calls (api_analyze env_ollama rejecting (answering ''A cat.'') history_messages ''S'' ''English'') =
           [OpenAICall client req]
         \<and> model req = ''llava''
         \<and> messages req ! 1 = \<lparr>w_role = ''user'', w_content = Parts [ImageUrl ''data:image/png;base64,AAA'']\<rparr>
         \<and> messages req ! 3 = \<lparr>w_role = ''user'',
              w_content = Parts [ImageUrl ''data:image/jpeg;base64,BBB'', TextPart ''And this?'']\<rparr>"
    unfolding p by simp
  from openai_serializes_conversation [of env_openai, OF a(3), of rejecting "answering ''A cat.''"
      history_messages "''S''" "''English''"] a(4,5)
  have 2: "\<exists>client req.
         calls (api_analyze env_openai rejecting (answering ''A cat.'') history_messages ''S'' ''English'') =
           [OpenAICall client req]
         \<and> model req = ''gpt-4o''"
    by auto
  show ?thesis using a 1 2 by simp
qed

section \<open>The hosted-generation adapter\<close>

lemma analyzeImageAndChat_configured:
  assumes "GEMINI_API_KEY env = Some key" and "key \<noteq> []"
  shows "analyzeImageAndChat env api msgs sys language_opt =
           ((case api key (gemini_params msgs sys (case language_opt of None \<Rightarrow> ''English'' | Some l \<Rightarrow> l)) of
               Inl msg \<Rightarrow> Inl msg
             | Inr r \<Rightarrow> Inr (or_default (r_text r) FALLBACK_TEXT)),
            [GenerateContent key
               (gemini_params msgs sys (case language_opt of None \<Rightarrow> ''English'' | Some l \<Rightarrow> l))])"
  using assms by (simp add: analyzeImageAndChat_def Let_def)

lemma analyzeImageAndChat_unconfigured:
  assumes "\<not> truthy (GEMINI_API_KEY env)"
  shows "analyzeImageAndChat env api msgs sys language_opt =
           (Inl ''GEMINI_API_KEY is not configured.'', [])"
  using assms by (cases "GEMINI_API_KEY env") (simp_all add: analyzeImageAndChat_def)

lemma gemini_adapter_contract:
  assumes "GEMINI_API_KEY env = Some key" and "key \<noteq> []"
  shows "\<exists>params. snd (analyzeImageAndChat env geminiApi msgs sys (Some lang)) = [GenerateContent key params]
         \<and> systemInstruction (config params) = sys @ langInstruction lang
         \<and> (\<forall>r t. geminiApi key params = Inr r \<and> r_text r = Some t \<and> t \<noteq> [] \<longrightarrow>
              fst (analyzeImageAndChat env geminiApi msgs sys (Some lang)) = Inr t)
         \<and> (\<forall>r. geminiApi key params = Inr r \<and> \<not> truthy (r_text r) \<longrightarrow>
              fst (analyzeImageAndChat env geminiApi msgs sys (Some lang)) = Inr FALLBACK_TEXT)"
proof -
  let ?p = "gemini_params msgs sys lang"
  have a: "analyzeImageAndChat env geminiApi msgs sys (Some lang) =
           ((case geminiApi key ?p of Inl msg \<Rightarrow> Inl msg
             | Inr r \<Rightarrow> Inr (or_default (r_text r) FALLBACK_TEXT)),
            [GenerateContent key ?p])"
    using analyzeImageAndChat_configured [OF assms, of geminiApi msgs sys "Some lang"] by simp
  have "systemInstruction (config ?p) = sys @ langInstruction lang"
    by (simp add: gemini_params_def fullSystemInstruction_def)
  moreover have "\<forall>r t. geminiApi key ?p = Inr r \<and> r_text r = Some t \<and> t \<noteq> [] \<longrightarrow>
              fst (analyzeImageAndChat env geminiApi msgs sys (Some lang)) = Inr t"
    unfolding a by (simp add: or_default_def)
  moreover have "\<forall>r. geminiApi key ?p = Inr r \<and> \<not> truthy (r_text r) \<longrightarrow>
              fst (analyzeImageAndChat env geminiApi msgs sys (Some lang)) = Inr FALLBACK_TEXT"
    unfolding a by (auto simp: or_default_def split: option.splits)
  moreover have "snd (analyzeImageAndChat env geminiApi msgs sys (Some lang)) = [GenerateContent key ?p]"
    unfolding a by simp
  ultimately show ?thesis by blast
qed

text \<open>
  C7. With GEMINI_API_KEY present, the hosted-generation adapter makes exactly one call,
  \<open>generateContent\<close> (the call that does not stream), whose contents are the whole
  conversation in order: per message the role \<open>model\<close> for an assistant turn and
  \<open>user\<close> for a user turn, and per part an \<open>inlineData\<close> entry with the base64 data
  and the mime type when the part has an image, a text entry otherwise. The temperature of
  the call is the literal 0.7, modelled as the number 7/10.
\<close>

theorem gemini_serializes_conversation:
  assumes "GEMINI_API_KEY env = Some key" and "key \<noteq> []"
  shows "snd (analyzeImageAndChat env api msgs sys language_opt) =
     [GenerateContent key
       \<lparr>g_model = ''gemini-3-flash-preview'',
        contents =
          map (\<lambda>msg.
                 \<lparr>g_role = (case role msg of Assistant \<Rightarrow> ''model'' | User \<Rightarrow> ''user''),
                  g_parts =
                    map (\<lambda>part. case p_image part of
                                   Some i \<Rightarrow> InlineData (data i) (mimeType i)
                                 | None \<Rightarrow> TextOnly (case p_text part of None \<Rightarrow> [] | Some t \<Rightarrow> t))
                      (parts msg)\<rparr>) msgs,
        config =
          \<lparr>systemInstruction =
             sys @ langInstruction (case language_opt of None \<Rightarrow> ''English'' | Some l \<Rightarrow> l),
           temperature = 7 / 10\<rparr>\<rparr>]"
proof -
  have r: "(if role msg = Assistant then ''model'' else ''user'') =
             (case role msg of Assistant \<Rightarrow> ''model'' | User \<Rightarrow> ''user'')" for msg
    by (cases "role msg") simp_all
  have c: "gemini_content_of =
             (\<lambda>msg. \<lparr>g_role = (case role msg of Assistant \<Rightarrow> ''model'' | User \<Rightarrow> ''user''),
                  g_parts =
                    map (\<lambda>part. case p_image part of
                                   Some i \<Rightarrow> InlineData (data i) (mimeType i)
                                 | None \<Rightarrow> TextOnly (case p_text part of None \<Rightarrow> [] | Some t \<Rightarrow> t))
                      (parts msg)\<rparr>)"
    by (rule ext) (simp add: gemini_content_of_def gemini_part_of_def text_or_empty_case r
        cong: option.case_cong)
  show ?thesis
    by (simp add: analyzeImageAndChat_configured [OF assms] gemini_params_def c
        GEMINI_MODEL_def fullSystemInstruction_def)
qed

theorem gemini_serializes_conversation_witness:
  "GEMINI_API_KEY env_gemini = Some ''g_key'' \<and> ''g_key'' \<noteq> []
   \<and> snd (analyzeImageAndChat env_gemini (gemini_answering ''A dog.'') history_messages ''S'' None) =
     [GenerateContent ''g_key''
       \<lparr>g_model = ''gemini-3-flash-preview'',
        contents =
          [\<lparr>g_role = ''user'', g_parts = [InlineData ''AAA'' ''image/png'']\<rparr>,
           \<lparr>g_role = ''model'', g_parts = [TextOnly ''A cat.'']\<rparr>,
           \<lparr>g_role = ''user'', g_parts = [InlineData ''BBB'' ''image/jpeg'', TextOnly ''And this?'']\<rparr>],
        config = \<lparr>systemInstruction = ''S'' @ langInstruction ''English'', temperature = 7 / 10\<rparr>\<rparr>]"
proof -
  have h1: "GEMINI_API_KEY env_gemini = Some ''g_key''" by (simp add: env_defs)
  have h2: "''g_key'' \<noteq> []" by simp
  show ?thesis
    using gemini_serializes_conversation [OF h1 h2, of "gemini_answering ''A dog.''"
        history_messages "''S''" None] h1
    by (simp add: history_messages_def image_part_def text_part_def)
qed

text \<open>
  C8 as stated fails in three places.
  Empty response, hosted-generation adapter: a response without text is not an error, the
  adapter returns a fixed text of apology.
  Empty response, the two adapters behind the endpoint: a first choice whose content is
  \<open>null\<close> is answered with status 200 and the text \<open>null\<close>; and where the
  response has no choice at all, the OpenAI-compatible path answers with the message of
  the error raised on reading it, which names no provider.
  Missing credential, the two adapters behind the endpoint: with OLLAMA_BASE_URL alone the
  OpenAI-compatible adapter has no key and is called all the same, with a placeholder
  key; without HUGGINGFACE_API_KEY the request is served by the OpenAI-compatible
  adapter, and with nothing configured the error is the one message shared by both.
\<close>

theorem adapter_failures_counterexample:
  "truthy (GEMINI_API_KEY env_gemini)
   \<and> gemini_empty ''g_key'' (gemini_params scenario_messages ''Describe.'' ''French'') =
       Inr \<lparr>r_text = None\<rparr>
   \<and> fst (analyzeImageAndChat env_gemini gemini_empty scenario_messages ''Describe.'' (Some ''French'')) =
       Inr FALLBACK_TEXT
   \<and> \<not> isl (fst (analyzeImageAndChat env_gemini gemini_empty scenario_messages ''Describe.''
               (Some ''French'')))
   \<and> response (api_analyze env_hf_only null_content rejecting scenario_messages
        ''Describe.'' ''French'') = \<lparr>status = 200, body = TextBody None\<rparr>
   \<and> response (api_analyze env_openai rejecting null_content scenario_messages
        ''Describe.'' ''French'') = \<lparr>status = 200, body = TextBody None\<rparr>
   \<and> response (api_analyze env_openai rejecting no_choices scenario_messages
        ''Describe.'' ''French'') = \<lparr>status = 500, body = ErrorBody undefined_message_error\<rparr>
   \<and> \<not> truthy (OLLAMA_API_KEY env_ollama) \<and> \<not> truthy (OPENAI_API_KEY env_ollama)
   \<and> calls (api_analyze env_ollama rejecting (answering ''A cat.'') scenario_messages
        ''Describe.'' ''French'') =
       [OpenAICall \<lparr>apiKey = ''dummy-key-for-ollama'',
                    baseURL = Some ''http://localhost:11434/v1''\<rparr>
          (openai_request env_ollama (fullSystemInstruction ''Describe.'' ''French'')
             scenario_messages)]
   \<and> response (api_analyze env_ollama rejecting (answering ''A cat.'') scenario_messages
        ''Describe.'' ''French'') = \<lparr>status = 200, body = TextBody (Some ''A cat.'')\<rparr>
   \<and> \<not> truthy (HUGGINGFACE_API_KEY env_openai)
   \<and> response (api_analyze env_openai rejecting (answering ''A cat.'') scenario_messages
        ''Describe.'' ''French'') = \<lparr>status = 200, body = TextBody (Some ''A cat.'')\<rparr>
   \<and> response (api_analyze env_none rejecting rejecting scenario_messages
        ''Describe.'' ''French'') = \<lparr>status = 500, body = ErrorBody NO_KEYS_ERROR\<rparr>"
proof -
  have g: "fst (analyzeImageAndChat env_gemini gemini_empty scenario_messages ''Describe.''
             (Some ''French'')) = Inr FALLBACK_TEXT"
    by (simp add: env_defs analyzeImageAndChat_def gemini_empty_def or_default_def Let_def)
  have k: "HUGGINGFACE_API_KEY env_hf_only = Some ''hf_key''" "''hf_key'' \<noteq> []"
    by (simp_all add: env_defs)
  have 1: "response (api_analyze env_hf_only null_content rejecting scenario_messages
        ''Describe.'' ''French'') = \<lparr>status = 200, body = TextBody None\<rparr>"
    unfolding analyze_hf [OF k]
    by (simp add: hf_path_def Let_def null_content_def first_choice_content_def)
  have o: "\<not> truthy (HUGGINGFACE_API_KEY env_openai)"
    "getOpenAIClient env_openai = Some \<lparr>apiKey = ''sk-key'', baseURL = None\<rparr>"
    "\<not> truthy (HUGGINGFACE_API_KEY env_ollama)"
    "getOpenAIClient env_ollama =
       Some \<lparr>apiKey = ''dummy-key-for-ollama'', baseURL = Some ''http://localhost:11434/v1''\<rparr>"
    "\<not> truthy (OLLAMA_API_KEY env_ollama)" "\<not> truthy (OPENAI_API_KEY env_ollama)"
    by (simp_all add: env_defs getOpenAIClient_def js_or_def or_default_def)
  have 2: "response (api_analyze env_openai rejecting null_content scenario_messages
        ''Describe.'' ''French'') = \<lparr>status = 200, body = TextBody None\<rparr>"
    unfolding analyze_openai [OF o(1,2)]
    by (simp add: openai_path_def Let_def null_content_def first_choice_content_def)
  have 3: "response (api_analyze env_openai rejecting no_choices scenario_messages
        ''Describe.'' ''French'') = \<lparr>status = 500, body = ErrorBody undefined_message_error\<rparr>"
    unfolding analyze_openai [OF o(1,2)]
    by (simp add: openai_path_def Let_def no_choices_def first_choice_content_def
        general_error_undefined)
  have 4: "calls (api_analyze env_ollama rejecting (answering ''A cat.'') scenario_messages
        ''Describe.'' ''French'') =
       [OpenAICall \<lparr>apiKey = ''dummy-key-for-ollama'',
                    baseURL = Some ''http://localhost:11434/v1''\<rparr>
          (openai_request env_ollama (fullSystemInstruction ''Describe.'' ''French'')
             scenario_messages)]"
    unfolding analyze_openai [OF o(3,4)] by (rule calls_openai_path)
  have 5: "response (api_analyze env_ollama rejecting (answering ''A cat.'') scenario_messages
        ''Describe.'' ''French'') = \<lparr>status = 200, body = TextBody (Some ''A cat.'')\<rparr>"
    unfolding analyze_openai [OF o(3,4)]
    by (simp add: openai_path_def Let_def answering_def first_choice_content_def)
  have 6: "response (api_analyze env_openai rejecting (answering ''A cat.'') scenario_messages
        ''Describe.'' ''French'') = \<lparr>status = 200, body = TextBody (Some ''A cat.'')\<rparr>"
    unfolding analyze_openai [OF o(1,2)]
    by (simp add: openai_path_def Let_def answering_def first_choice_content_def)
  have 7: "response (api_analyze env_none rejecting rejecting scenario_messages
        ''Describe.'' ''French'') = \<lparr>status = 500, body = ErrorBody NO_KEYS_ERROR\<rparr>"
    by (simp add: analyze_unconfigured getOpenAIClient_None_iff [THEN iffD2] env_defs)
  have e: "truthy (GEMINI_API_KEY env_gemini)"
    "gemini_empty ''g_key'' (gemini_params scenario_messages ''Describe.'' ''French'') =
       Inr \<lparr>r_text = None\<rparr>"
    by (simp_all add: env_defs gemini_empty_def)
  show ?thesis using e g 1 2 3 o(1,5,6) 4 5 6 7 by simp
qed

text \<open>
  C8, amended. Every adapter sends the system instruction with the language instruction
  appended, and returns the text of the provider's first candidate; the two adapters
  behind the endpoint return the content of the first choice as it is, \<open>null\<close> included,
  with status 200.
  Missing credential: the hosted-generation adapter fails with its own error,
  \<open>GEMINI_API_KEY is not configured.\<close>, and makes no call. The two adapters behind the
  endpoint have no such error of their own: the hosted-inference adapter is called when
  HUGGINGFACE_API_KEY is present; when it is absent and one of OLLAMA_API_KEY,
  OPENAI_API_KEY, OLLAMA_BASE_URL is present, the OpenAI-compatible adapter is called,
  with the first present of the two keys and else with the placeholder key; when all four
  are absent the endpoint fails with the one shared configuration error and calls nothing.
  Empty response: the hosted-generation adapter returns the fixed substitute text when the
  response has no text. For a response without any choice, the hosted-inference path
  answers status 500 with the message of the error raised on reading it behind the prefix
  \<open>Hugging Face Error: \<close>, and the OpenAI-compatible path status 500 with that message
  alone.
\<close>

theorem adapters_instruction_and_extraction:
  "(\<forall>key. HUGGINGFACE_API_KEY env = Some key \<and> key \<noteq> [] \<longrightarrow>
      (\<exists>req. calls (api_analyze env hfApi openaiApi msgs sys lang) = [HFCall (HfInference key) req]
         \<and> hd (messages req) = \<lparr>w_role = ''system'', w_content = Str (sys @ langInstruction lang)\<rparr>
         \<and> (\<forall>r c cs. hfApi (HfInference key) req = Inr r \<and> choices r = c # cs \<longrightarrow>
              response (api_analyze env hfApi openaiApi msgs sys lang) =
                \<lparr>status = 200, body = TextBody (content (message c))\<rparr>)
         \<and> (\<forall>r. hfApi (HfInference key) req = Inr r \<and> choices r = [] \<longrightarrow>
              response (api_analyze env hfApi openaiApi msgs sys lang) =
                \<lparr>status = 500,
                 body = ErrorBody (''Hugging Face Error: '' @ undefined_message_error)\<rparr>)))
   \<and> (\<not> truthy (HUGGINGFACE_API_KEY env) \<and>
        (truthy (OLLAMA_API_KEY env) \<or> truthy (OPENAI_API_KEY env) \<or> truthy (OLLAMA_BASE_URL env)) \<longrightarrow>
      (\<exists>client req. calls (api_analyze env hfApi openaiApi msgs sys lang) = [OpenAICall client req]
         \<and> apiKey client =
             or_default (js_or (OLLAMA_API_KEY env) (OPENAI_API_KEY env)) ''dummy-key-for-ollama''
         \<and> hd (messages req) = \<lparr>w_role = ''system'', w_content = Str (sys @ langInstruction lang)\<rparr>
         \<and> (\<forall>r c cs. openaiApi client req = Inr r \<and> choices r = c # cs \<longrightarrow>
              response (api_analyze env hfApi openaiApi msgs sys lang) =
                \<lparr>status = 200, body = TextBody (content (message c))\<rparr>)
         \<and> (\<forall>r. openaiApi client req = Inr r \<and> choices r = [] \<longrightarrow>
              response (api_analyze env hfApi openaiApi msgs sys lang) =
                \<lparr>status = 500, body = ErrorBody undefined_message_error\<rparr>)))
   \<and> (\<not> truthy (HUGGINGFACE_API_KEY env) \<and> \<not> truthy (OLLAMA_API_KEY env)
        \<and> \<not> truthy (OPENAI_API_KEY env) \<and> \<not> truthy (OLLAMA_BASE_URL env) \<longrightarrow>
        api_analyze env hfApi openaiApi msgs sys lang =
          \<lparr>response = \<lparr>status = 500, body = ErrorBody NO_KEYS_ERROR\<rparr>, calls = []\<rparr>)
   \<and> (\<forall>key. GEMINI_API_KEY env = Some key \<and> key \<noteq> [] \<longrightarrow>
      (\<exists>params. snd (analyzeImageAndChat env geminiApi msgs sys (Some lang)) = [GenerateContent key params]
         \<and> systemInstruction (config params) = sys @ langInstruction lang
         \<and> (\<forall>r t. geminiApi key params = Inr r \<and> r_text r = Some t \<and> t \<noteq> [] \<longrightarrow>
              fst (analyzeImageAndChat env geminiApi msgs sys (Some lang)) = Inr t)
         \<and> (\<forall>r. geminiApi key params = Inr r \<and> \<not> truthy (r_text r) \<longrightarrow>
              fst (analyzeImageAndChat env geminiApi msgs sys (Some lang)) = Inr FALLBACK_TEXT)))
   \<and> (\<not> truthy (GEMINI_API_KEY env) \<longrightarrow>
        analyzeImageAndChat env geminiApi msgs sys (Some lang) =
          (Inl ''GEMINI_API_KEY is not configured.'', []))"
proof (intro conjI allI impI)
  fix key
  assume "HUGGINGFACE_API_KEY env = Some key \<and> key \<noteq> []"
  then show "\<exists>req. calls (api_analyze env hfApi openaiApi msgs sys lang) = [HFCall (HfInference key) req]
         \<and> hd (messages req) = \<lparr>w_role = ''system'', w_content = Str (sys @ langInstruction lang)\<rparr>
         \<and> (\<forall>r c cs. hfApi (HfInference key) req = Inr r \<and> choices r = c # cs \<longrightarrow>
              response (api_analyze env hfApi openaiApi msgs sys lang) =
                \<lparr>status = 200, body = TextBody (content (message c))\<rparr>)
         \<and> (\<forall>r. hfApi (HfInference key) req = Inr r \<and> choices r = [] \<longrightarrow>
              response (api_analyze env hfApi openaiApi msgs sys lang) =
                \<lparr>status = 500,
                 body = ErrorBody (''Hugging Face Error: '' @ undefined_message_error)\<rparr>)"
    using hf_adapter_contract [of env key] by simp
next
  assume "\<not> truthy (HUGGINGFACE_API_KEY env) \<and>
        (truthy (OLLAMA_API_KEY env) \<or> truthy (OPENAI_API_KEY env) \<or> truthy (OLLAMA_BASE_URL env))"
  then show "\<exists>client req. calls (api_analyze env hfApi openaiApi msgs sys lang) = [OpenAICall client req]
         \<and> apiKey client =
             or_default (js_or (OLLAMA_API_KEY env) (OPENAI_API_KEY env)) ''dummy-key-for-ollama''
         \<and> hd (messages req) = \<lparr>w_role = ''system'', w_content = Str (sys @ langInstruction lang)\<rparr>
         \<and> (\<forall>r c cs. openaiApi client req = Inr r \<and> choices r = c # cs \<longrightarrow>
              response (api_analyze env hfApi openaiApi msgs sys lang) =
                \<lparr>status = 200, body = TextBody (content (message c))\<rparr>)
         \<and> (\<forall>r. openaiApi client req = Inr r \<and> choices r = [] \<longrightarrow>
              response (api_analyze env hfApi openaiApi msgs sys lang) =
                \<lparr>status = 500, body = ErrorBody undefined_message_error\<rparr>)"
    using openai_adapter_contract [of env] by simp
next
  assume "\<not> truthy (HUGGINGFACE_API_KEY env) \<and> \<not> truthy (OLLAMA_API_KEY env)
        \<and> \<not> truthy (OPENAI_API_KEY env) \<and> \<not> truthy (OLLAMA_BASE_URL env)"
  then show "api_analyze env hfApi openaiApi msgs sys lang =
          \<lparr>response = \<lparr>status = 500, body = ErrorBody NO_KEYS_ERROR\<rparr>, calls = []\<rparr>"
    by (simp add: analyze_unconfigured getOpenAIClient_None_iff [THEN iffD2])
next
  fix key
  assume "GEMINI_API_KEY env = Some key \<and> key \<noteq> []"
  then show "\<exists>params. snd (analyzeImageAndChat env geminiApi msgs sys (Some lang)) = [GenerateContent key params]
         \<and> systemInstruction (config params) = sys @ langInstruction lang
         \<and> (\<forall>r t. geminiApi key params = Inr r \<and> r_text r = Some t \<and> t \<noteq> [] \<longrightarrow>
              fst (analyzeImageAndChat env geminiApi msgs sys (Some lang)) = Inr t)
         \<and> (\<forall>r. geminiApi key params = Inr r \<and> \<not> truthy (r_text r) \<longrightarrow>
              fst (analyzeImageAndChat env geminiApi msgs sys (Some lang)) = Inr FALLBACK_TEXT)"
    using gemini_adapter_contract [of env key] by simp
next
  assume "\<not> truthy (GEMINI_API_KEY env)"
  then show "analyzeImageAndChat env geminiApi msgs sys (Some lang) =
          (Inl ''GEMINI_API_KEY is not configured.'', [])"
    by (rule analyzeImageAndChat_unconfigured)
qed

theorem adapters_instruction_and_extraction_witness:
  "HUGGINGFACE_API_KEY env_all = Some ''hf_key'' \<and> GEMINI_API_KEY env_all = Some ''g_key''
   \<and> response (api_analyze env_all (answering ''A cat.'') rejecting scenario_messages
        ''Describe.'' ''French'') = \<lparr>status = 200, body = TextBody (Some ''A cat.'')\<rparr>
   \<and> \<not> truthy (HUGGINGFACE_API_KEY env_openai) \<and> truthy (OPENAI_API_KEY env_openai)
   \<and> response (api_analyze env_openai rejecting (answering ''A cat.'') scenario_messages
        ''Describe.'' ''French'') = \<lparr>status = 200, body = TextBody (Some ''A cat.'')\<rparr>
   \<and> status (response (api_analyze env_openai rejecting no_choices scenario_messages
        ''Describe.'' ''French'')) = 500
   \<and> fst (analyzeImageAndChat env_all (gemini_answering ''A dog.'') scenario_messages
        ''Describe.'' (Some ''French'')) = Inr ''A dog.''
   \<and> fst (analyzeImageAndChat env_all gemini_empty scenario_messages
        ''Describe.'' (Some ''French'')) = Inr FALLBACK_TEXT
   \<and> \<not> truthy (GEMINI_API_KEY env_none)
   \<and> analyzeImageAndChat env_none gemini_empty scenario_messages ''Describe.'' (Some ''French'') =
        (Inl ''GEMINI_API_KEY is not configured.'', [])
   \<and> status (response (api_analyze env_none rejecting rejecting scenario_messages
        ''Describe.'' ''French'')) = 500
   \<and> response (api_analyze env_all no_choices rejecting scenario_messages
        ''Describe.'' ''French'') =
       \<lparr>status = 500, body = ErrorBody (''Hugging Face Error: '' @ undefined_message_error)\<rparr>"
proof -
  note t6 = adapters_instruction_and_extraction [of env_all no_choices rejecting
      scenario_messages "''Describe.''" "''French''" gemini_empty]
  note t1 = adapters_instruction_and_extraction [of env_all "answering ''A cat.''" rejecting
      scenario_messages "''Describe.''" "''French''" "gemini_answering ''A dog.''"]
  note t2 = adapters_instruction_and_extraction [of env_openai rejecting "answering ''A cat.''"
      scenario_messages "''Describe.''" "''French''" gemini_empty]
  note t5 = adapters_instruction_and_extraction [of env_openai rejecting no_choices
      scenario_messages "''Describe.''" "''French''" gemini_empty]
  note t3 = adapters_instruction_and_extraction [of env_all "answering ''A cat.''" rejecting
      scenario_messages "''Describe.''" "''French''" gemini_empty]
  note t4 = adapters_instruction_and_extraction [of env_none rejecting rejecting
      scenario_messages "''Describe.''" "''French''" gemini_empty]
  have e: "HUGGINGFACE_API_KEY env_all = Some ''hf_key''" "GEMINI_API_KEY env_all = Some ''g_key''"
    "\<not> truthy (HUGGINGFACE_API_KEY env_openai)" "truthy (OPENAI_API_KEY env_openai)"
    "\<not> truthy (GEMINI_API_KEY env_none)"
    by (simp_all add: env_defs)
  have n: "\<not> truthy (HUGGINGFACE_API_KEY env_none) \<and> \<not> truthy (OLLAMA_API_KEY env_none)
        \<and> \<not> truthy (OPENAI_API_KEY env_none) \<and> \<not> truthy (OLLAMA_BASE_URL env_none)"
    by (simp add: env_defs)
  have 1: "response (api_analyze env_all (answering ''A cat.'') rejecting scenario_messages
        ''Describe.'' ''French'') = \<lparr>status = 200, body = TextBody (Some ''A cat.'')\<rparr>"
    using t1 e(1) by (auto simp: answering_def)
  have 2: "response (api_analyze env_openai rejecting (answering ''A cat.'') scenario_messages
        ''Describe.'' ''French'') = \<lparr>status = 200, body = TextBody (Some ''A cat.'')\<rparr>"
    using t2 e(3,4) by (auto simp: answering_def)
  have 7: "status (response (api_analyze env_openai rejecting no_choices scenario_messages
        ''Describe.'' ''French'')) = 500"
    using t5 e(3,4) by (auto simp: no_choices_def)
  have 3: "fst (analyzeImageAndChat env_all (gemini_answering ''A dog.'') scenario_messages
        ''Describe.'' (Some ''French'')) = Inr ''A dog.''"
    using t1 e(2) by (auto simp: gemini_answering_def)
  have 4: "fst (analyzeImageAndChat env_all gemini_empty scenario_messages
        ''Describe.'' (Some ''French'')) = Inr FALLBACK_TEXT"
    using t3 e(2) by (auto simp: gemini_empty_def)
  have 5: "analyzeImageAndChat env_none gemini_empty scenario_messages ''Describe.'' (Some ''French'') =
        (Inl ''GEMINI_API_KEY is not configured.'', [])"
    using t4 e(5) by blast
  have 6: "status (response (api_analyze env_none rejecting rejecting scenario_messages
        ''Describe.'' ''French'')) = 500"
    using t4 n by simp
  have 8: "response (api_analyze env_all no_choices rejecting scenario_messages
        ''Describe.'' ''French'') =
       \<lparr>status = 500, body = ErrorBody (''Hugging Face Error: '' @ undefined_message_error)\<rparr>"
    using t6 e(1) by (auto simp: no_choices_def)
  show ?thesis using e 1 2 7 3 4 5 6 8 by simp
qed

end
